theory Spec2Isabelle
  imports Complex_Main "HOL-Library.Multiset"
begin

section \<open>Values, errors and the library calls of the notebook\<close>

text \<open>
  The notebook \<open>intrinsic_dim.ipynb\<close> defines five functions: \<open>get_embeddings\<close>,
  \<open>compute_persistent_score\<close>, \<open>sample_and_score\<close>, \<open>estimate_dimension\<close> and
  \<open>estimate_sequence_dimension\<close>. They raise nothing themselves; every exception comes
  out of a NumPy, SciPy or scikit-learn call, all of them \<open>ValueError\<close>, except for an
  out-of-range row index (\<open>IndexError\<close>) and a missing file.
\<close>

datatype error = ValueError | IndexError | FileNotFoundError

text \<open>
  A float64 is an exact real or one of the three special values. Rounding is not
  modelled; what is modelled is that NumPy arithmetic on float64 scalars and arrays
  returns \<open>inf\<close>, \<open>-inf\<close> or \<open>nan\<close> (with a warning) where Python's own floats would raise.
\<close>

datatype fval = Fin real | PInf | NInf | NaN

type_synonym matrix = "real list list"

fun isfinite :: "fval \<Rightarrow> bool" where
  "isfinite (Fin x) = True"
| "isfinite PInf = False"
| "isfinite NInf = False"
| "isfinite NaN = False"

fun the_fin :: "fval \<Rightarrow> real" where
  "the_fin (Fin x) = x"
| "the_fin PInf = 0"
| "the_fin NInf = 0"
| "the_fin NaN = 0"

text \<open>\<open>np.log\<close>: \<open>-inf\<close> at zero and \<open>nan\<close> below zero, no exception.\<close>

fun np_log :: "fval \<Rightarrow> fval" where
  "np_log (Fin x) = (if 0 < x then Fin (ln x) else if x = 0 then NInf else NaN)"
| "np_log PInf = PInf"
| "np_log NInf = NaN"
| "np_log NaN = NaN"


definition np_median :: "real list \<Rightarrow> fval" where
  "np_median xs =
     (if xs = [] then NaN
      else let s = sort xs; m = length xs div 2
           in if even (length xs) then Fin ((s ! (m - 1) + s ! m) / 2) else Fin (s ! m))"

text \<open>
  The expression \<open>1 / (1 - x)\<close> on a float64 scalar, which closes both
  \<open>estimate_dimension\<close> and \<open>estimate_sequence_dimension\<close>: at \<open>x = 1\<close> the divisor is
  \<open>+0.0\<close> and the quotient is \<open>inf\<close>.
\<close>

fun one_over_one_minus :: "fval \<Rightarrow> fval" where
  "one_over_one_minus (Fin x) = (if 1 - x = 0 then PInf else Fin (1 / (1 - x)))"
| "one_over_one_minus PInf = Fin 0"
| "one_over_one_minus NInf = Fin 0"
| "one_over_one_minus NaN = NaN"

section \<open>Sample sizes\<close>

text \<open>
  Line 108 of the notebook:
  \<open>sizes = [(i - 1) * (n - hat_n) // k + hat_n for i in range(1, k + 1)]\<close>.
  Python's \<open>//\<close> on integers is floor division, as \<open>div\<close> on \<open>int\<close> is; \<open>range(1, k + 1)\<close>
  is \<open>[1..k]\<close>, empty when \<open>k < 1\<close>, so the division by \<open>k\<close> is never by zero.
\<close>

definition sizes :: "int \<Rightarrow> int \<Rightarrow> int \<Rightarrow> int list" where
  "sizes n k hat_n = map (\<lambda>i. (i - 1) * (n - hat_n) div k + hat_n) [1..k]"

section \<open>The MST persistence scorer\<close>

text \<open>
  \<open>scipy.spatial.distance_matrix(x, y)\<close> with the default \<open>p = 2\<close>: it reads the two
  shapes, raises \<open>ValueError\<close> when the row widths differ, and returns the matrix of
  \<open>minkowski_distance\<close>, which is \<open>np.sum(np.abs(y - x) ** 2, axis=-1) ** (1 / 2)\<close>.
  A matrix is a list of rows here; a list whose rows differ in width is not an array
  with a two-dimensional shape and fails the same way.
\<close>

definition minkowski_distance :: "real list \<Rightarrow> real list \<Rightarrow> real" where
  "minkowski_distance x y = sqrt (sum_list (map (\<lambda>(a, b). \<bar>b - a\<bar> ^ 2) (zip x y)))"

definition distance_matrix :: "matrix \<Rightarrow> matrix \<Rightarrow> error + matrix" where
  "distance_matrix x y =
     (if \<exists>r \<in> set x. \<exists>s \<in> set y. length r \<noteq> length s then Inl ValueError
      else Inr (map (\<lambda>r. map (\<lambda>s. minkowski_distance r s) y) x))"

text \<open>
  \<open>scipy.sparse.csgraph.minimum_spanning_tree\<close> on a dense matrix. The matrix must be
  square. Its non-zero entries are the edges (a zero entry is no edge), taken in
  row-major order as the conversion to compressed sparse rows stores them. Kruskal's
  algorithm then steps through the edges from the smallest weight to the largest and
  keeps an edge when its two end points have different head nodes, joining the two
  subtrees; otherwise the edge is dropped. The union-find forest of SciPy (predecessor
  array, ranks, path compression) is represented by the function \<open>head\<close> from a vertex to
  the head node of its subtree: which of the two heads survives a join is SciPy's choice
  by rank and does not change which edges are kept. SciPy stops testing once \<open>N - 1\<close>
  edges are kept and drops the rest; from then on every test fails anyway.
\<close>

type_synonym 'v edge = "'v \<times> 'v \<times> real"

definition weight :: "'v edge \<Rightarrow> real" where
  "weight e = snd (snd e)"

definition dense_edges :: "matrix \<Rightarrow> nat edge list" where
  "dense_edges d =
     concat (map (\<lambda>i. concat (map (\<lambda>j. if d ! i ! j \<noteq> 0 then [(i, j, d ! i ! j)] else [])
                                  [0..<length d]))
                 [0..<length d])"

definition join :: "('v \<Rightarrow> 'v) \<Rightarrow> 'v \<Rightarrow> 'v \<Rightarrow> 'v \<Rightarrow> 'v" where
  "join head r1 r2 = (\<lambda>v. if head v = r2 then r1 else head v)"

fun kruskal :: "('v \<Rightarrow> 'v) \<Rightarrow> 'v edge list \<Rightarrow> 'v edge list" where
  "kruskal head [] = []"
| "kruskal head ((v1, v2, w) # es) =
     (let r1 = head v1; r2 = head v2
      in if r1 \<noteq> r2 then (v1, v2, w) # kruskal (join head r1 r2) es
         else kruskal head es)"

definition minimum_spanning_tree :: "matrix \<Rightarrow> error + nat edge list" where
  "minimum_spanning_tree d =
     (if \<exists>r \<in> set d. length r \<noteq> length d then Inl ValueError
      else Inr (kruskal (\<lambda>v. v) (sort_key weight (dense_edges d))))"

text \<open>Lines 71 to 83: the sum of the entries of the tree.\<close>

definition compute_persistent_score :: "matrix \<Rightarrow> error + real" where
  "compute_persistent_score embeddings =
     (case distance_matrix embeddings embeddings of
        Inl e \<Rightarrow> Inl e
      | Inr dist_matrix \<Rightarrow>
          (case minimum_spanning_tree dist_matrix of
             Inl e \<Rightarrow> Inl e
           | Inr mst \<Rightarrow> Inr (sum_list (map weight mst))))"

text \<open>
  Three notions for reasoning about the tree. \<open>relabel\<close> renames the end points of an
  edge and keeps its weight; \<open>tree_weight\<close> is the sum Kruskal's algorithm returns from a
  given state of the forest; \<open>point_edges\<close> lists the edges of \<open>dense_edges\<close> with the points
  themselves as end points instead of their row numbers.
\<close>

definition relabel :: "('u \<Rightarrow> 'v) \<Rightarrow> 'u edge \<Rightarrow> 'v edge" where
  "relabel f e = (f (fst e), f (fst (snd e)), snd (snd e))"



section \<open>The subsampler\<close>

text \<open>
  NumPy's global generator is a state \<open>'g\<close> that every draw reads and replaces; a
  computation over it returns its result or its exception together with the state it
  leaves behind. \<open>np.random.choice(n, size, replace=False)\<close> with integers \<open>n\<close> and \<open>size\<close>
  checks its arguments first (\<open>a must be greater than 0 unless no samples are taken\<close>,
  \<open>Cannot take a larger sample than population when 'replace=False'\<close>,
  \<open>negative dimensions are not allowed\<close>), and only then takes the first \<open>size\<close> entries
  of \<open>permutation(n)\<close>. The generator itself is the parameter \<open>perm\<close>.
\<close>

type_synonym 'g permutation = "'g \<Rightarrow> nat \<Rightarrow> nat list \<times> 'g"

definition np_random_choice ::
  "'g permutation \<Rightarrow> int \<Rightarrow> int \<Rightarrow> 'g \<Rightarrow> (error + nat list) \<times> 'g" where
  "np_random_choice perm n sz g =
     (if n \<le> 0 \<and> sz \<noteq> 0 then (Inl ValueError, g)
      else if n < sz then (Inl ValueError, g)
      else if sz < 0 then (Inl ValueError, g)
      else (case perm g (nat n) of (p, g') \<Rightarrow> (Inr (take (nat sz) p), g')))"

text \<open>\<open>embeddings[idx]\<close> with an index array: the rows at \<open>idx\<close>, in that order.\<close>

definition take_rows :: "matrix \<Rightarrow> nat list \<Rightarrow> error + matrix" where
  "take_rows embeddings idx =
     (if \<forall>i \<in> set idx. i < length embeddings then Inr (map (\<lambda>i. embeddings ! i) idx)
      else Inl IndexError)"

text \<open>
  Lines 111 and 112, the comprehension over \<open>range(J)\<close>: each turn draws, takes the rows
  and scores them.
\<close>

fun subset_scores ::
  "'g permutation \<Rightarrow> matrix \<Rightarrow> int \<Rightarrow> int \<Rightarrow> nat \<Rightarrow> 'g \<Rightarrow> (error + real list) \<times> 'g" where
  "subset_scores perm embeddings n sz 0 g = (Inr [], g)"
| "subset_scores perm embeddings n sz (Suc j) g =
     (case np_random_choice perm n sz g of
        (Inl e, g1) \<Rightarrow> (Inl e, g1)
      | (Inr idx, g1) \<Rightarrow>
          (case take_rows embeddings idx of
             Inl e \<Rightarrow> (Inl e, g1)
           | Inr sub \<Rightarrow>
               (case compute_persistent_score sub of
                  Inl e \<Rightarrow> (Inl e, g1)
                | Inr s \<Rightarrow>
                    (case subset_scores perm embeddings n sz j g1 of
                       (Inl e, g2) \<Rightarrow> (Inl e, g2)
                     | (Inr ss, g2) \<Rightarrow> (Inr (s # ss), g2)))))"

text \<open>Lines 110 to 113, the loop over the sizes: one median per size.\<close>

fun score_sizes ::
  "'g permutation \<Rightarrow> matrix \<Rightarrow> int \<Rightarrow> int \<Rightarrow> int list \<Rightarrow> 'g \<Rightarrow> (error + fval list) \<times> 'g" where
  "score_sizes perm embeddings n J [] g = (Inr [], g)"
| "score_sizes perm embeddings n J (sz # rest) g =
     (case subset_scores perm embeddings n sz (nat J) g of
        (Inl e, g1) \<Rightarrow> (Inl e, g1)
      | (Inr ss, g1) \<Rightarrow>
          (case score_sizes perm embeddings n J rest g1 of
             (Inl e, g2) \<Rightarrow> (Inl e, g2)
           | (Inr scores, g2) \<Rightarrow> (Inr (np_median ss # scores), g2)))"

text \<open>
  Lines 92 to 115. The parameters are those of the source, \<open>(embeddings, n, k, hat_n, J)\<close>,
  after the generator; there is no seed or generator parameter in the source.
\<close>

definition sample_and_score ::
  "'g permutation \<Rightarrow> matrix \<Rightarrow> int \<Rightarrow> int \<Rightarrow> int \<Rightarrow> int \<Rightarrow> 'g
     \<Rightarrow> (error + int list \<times> fval list) \<times> 'g" where
  "sample_and_score perm embeddings n k hat_n J g =
     (case score_sizes perm embeddings n J (sizes n k hat_n) g of
        (Inl e, g1) \<Rightarrow> (Inl e, g1)
      | (Inr scores, g1) \<Rightarrow> (Inr (sizes n k hat_n, scores), g1))"

section \<open>The dimension estimator\<close>

text \<open>
  \<open>LinearRegression().fit(X, y).coef_[0]\<close> with one predictor column. scikit-learn
  validates its input before fitting and raises \<open>ValueError\<close> when \<open>X\<close> or \<open>y\<close> holds
  \<open>nan\<close> or an infinity, when there is no sample, or when the lengths differ. The fit
  is ordinary least squares on the centred data; where the predictor is constant the
  least-squares solution of minimum norm is the slope \<open>0\<close>.
\<close>

definition ols_slope :: "real list \<Rightarrow> real list \<Rightarrow> real" where
  "ols_slope xs ys =
     (let mx = sum_list xs / real (length xs);
          my = sum_list ys / real (length ys);
          sxx = sum_list (map (\<lambda>x. (x - mx) * (x - mx)) xs);
          sxy = sum_list (map (\<lambda>(x, y). (x - mx) * (y - my)) (zip xs ys))
      in if sxx = 0 then 0 else sxy / sxx)"

definition linear_regression_coef :: "fval list \<Rightarrow> fval list \<Rightarrow> error + real" where
  "linear_regression_coef X y =
     (if \<not> list_all isfinite X then Inl ValueError
      else if X = [] then Inl ValueError
      else if \<not> list_all isfinite y then Inl ValueError
      else if length X \<noteq> length y then Inl ValueError
      else Inr (ols_slope (map the_fin X) (map the_fin y)))"

text \<open>Lines 124 to 141.\<close>

definition estimate_dimension :: "fval list \<Rightarrow> fval list \<Rightarrow> error + fval" where
  "estimate_dimension szs scores =
     (let log_sizes = map np_log szs; log_scores = map np_log scores
      in case linear_regression_coef log_sizes log_scores of
           Inl e \<Rightarrow> Inl e
         | Inr slope \<Rightarrow> Inr (one_over_one_minus (Fin slope)))"

section \<open>The multi-run aggregator\<close>








section \<open>The aggregator as the specification words it\<close>





section \<open>A generator for concrete runs\<close>

text \<open>
  The properties below hold for every generator. Where a run is evaluated on concrete
  data, the generator is this one: its state is a counter, and \<open>permutation(n)\<close> is
  \<open>0, \<dots>, n - 1\<close> rotated by the counter, which the draw then advances.
\<close>

definition rotating :: "nat permutation" where
  "rotating g n = (rotate g [0..<n], Suc g)"



section \<open>Properties of the sample sizes\<close>

lemma length_sizes: "length (sizes n k hat_n) = nat k"
  by (simp add: sizes_def)

lemma nth_sizes:
  assumes "1 \<le> i" "i \<le> k"
  shows "sizes n k hat_n ! nat (i - 1) = (i - 1) * (n - hat_n) div k + hat_n"
  using assms by (simp add: sizes_def)

lemma sizes_Cons:
  "1 \<le> k \<Longrightarrow> sizes n k hat_n = hat_n # map (\<lambda>i. (i - 1) * (n - hat_n) div k + hat_n) [2..k]"
  by (simp add: sizes_def upto_rec1[of 1 k])

lemma sizes_1022_8_40: "sizes 1022 8 40 = [40, 162, 285, 408, 531, 653, 776, 899]"
  by (simp add: sizes_def upto_rec1)

lemma size_upper:
  assumes "1 \<le> i" "i \<le> k" "hat_n \<le> (n::int)"
  shows "(i - 1) * (n - hat_n) div k + hat_n \<le> n"
proof -
  have "(i - 1) * (n - hat_n) \<le> k * (n - hat_n)"
    using assms by (intro mult_right_mono) auto
  then have "(i - 1) * (n - hat_n) div k \<le> k * (n - hat_n) div k"
    by (rule zdiv_mono1) (use assms in auto)
  also have "\<dots> = n - hat_n"
    using assms by simp
  finally show ?thesis by simp
qed

lemma size_lower:
  assumes "1 \<le> i" "i \<le> k" "hat_n \<le> (n::int)"
  shows "hat_n \<le> (i - 1) * (n - hat_n) div k + hat_n"
proof -
  have "0 \<le> (i - 1) * (n - hat_n)"
    using assms by simp
  then have "0 \<le> (i - 1) * (n - hat_n) div k"
    using assms by (simp add: pos_imp_zdiv_nonneg_iff)
  then show ?thesis by simp
qed

lemma size_mono:
  assumes "i \<le> j" "0 < k" "hat_n \<le> (n::int)"
  shows "(i - 1) * (n - hat_n) div k + hat_n \<le> (j - 1) * (n - hat_n) div k + hat_n"
proof -
  have "(i - 1) * (n - hat_n) \<le> (j - 1) * (n - hat_n)"
    using assms by (intro mult_right_mono) auto
  then show ?thesis
    using assms by (simp add: zdiv_mono1)
qed

lemma size_strict_mono:
  assumes "i < j" "0 < k" "k \<le> n - (hat_n::int)"
  shows "(i - 1) * (n - hat_n) div k + hat_n < (j - 1) * (n - hat_n) div k + hat_n"
proof -
  have "(i - 1) * (n - hat_n) + k \<le> (i - 1) * (n - hat_n) + (n - hat_n)"
    using assms by simp
  also have "\<dots> = i * (n - hat_n)"
    by (simp add: algebra_simps)
  also have "\<dots> \<le> (j - 1) * (n - hat_n)"
    using assms by (intro mult_right_mono) auto
  finally have "(i - 1) * (n - hat_n) + k \<le> (j - 1) * (n - hat_n)" .
  then have "((i - 1) * (n - hat_n) + k) div k \<le> (j - 1) * (n - hat_n) div k"
    by (rule zdiv_mono1) (use assms in auto)
  moreover have "((i - 1) * (n - hat_n) + k) div k = (i - 1) * (n - hat_n) div k + 1"
    using assms by simp
  ultimately show ?thesis by simp
qed

lemma sorted_sizes:
  assumes "0 < k" "hat_n \<le> n"
  shows "sorted (sizes n k hat_n)"
  unfolding sizes_def sorted_map
  by (rule sorted_wrt_mono_rel[OF _ sorted_upto]) (use assms size_mono in auto)

lemma strictly_sorted_sizes:
  assumes "0 < k" "k \<le> n - hat_n"
  shows "sorted_wrt (<) (sizes n k hat_n)"
proof -
  have "sorted_wrt (<) [1..k]"
    by (simp add: sorted_wrt_iff_nth_less nth_upto; auto)
  then show ?thesis
    unfolding sizes_def sorted_wrt_map
    by (rule sorted_wrt_mono_rel[rotated]) (use assms size_strict_mono in auto)
qed

lemma set_sizes_bounds:
  assumes "1 \<le> k" "hat_n \<le> n" "s \<in> set (sizes n k hat_n)"
  shows "hat_n \<le> s \<and> s \<le> n"
  using assms size_upper size_lower by (auto simp: sizes_def)

section \<open>Properties of the subsampler\<close>

lemmas score_defs = compute_persistent_score_def distance_matrix_def
  minimum_spanning_tree_def dense_edges_def minkowski_distance_def weight_def join_def

lemmas run_defs = sample_and_score_def rotating_def np_random_choice_def take_rows_def
  np_median_def

lemma subset_scores_reject:
  "n < sz \<or> sz < 0 \<Longrightarrow> subset_scores perm emb n sz (Suc j) g = (Inl ValueError, g)"
  by (auto simp: np_random_choice_def)

lemma score_sizes_length:
  "score_sizes perm emb n J szs g = (Inr scores, g') \<Longrightarrow> length scores = length szs"
proof (induction szs arbitrary: g scores)
  case Nil
  then show ?case by simp
next
  case (Cons s szs)
  then show ?case by (auto split: prod.splits sum.splits)
qed

lemma score_sizes_no_draws:
  "J < 1 \<Longrightarrow> score_sizes perm emb n J szs g = (Inr (map (\<lambda>_. NaN) szs), g)"
  by (induction szs) (auto simp: np_median_def)

lemma sample_and_score_sizes:
  "sample_and_score perm emb n k hat_n J g = (Inr (szs, scores), g') \<Longrightarrow>
     szs = sizes n k hat_n \<and> length scores = length szs"
  by (auto simp: sample_and_score_def score_sizes_length split: prod.splits sum.splits)

lemma first_draw_rejected:
  assumes "n < hat_n" "1 \<le> k" "1 \<le> J"
  shows "sample_and_score perm emb n k hat_n J g = (Inl ValueError, g)"
proof -
  obtain j where j: "nat J = Suc j"
    using assms(3) by (cases "nat J") auto
  show ?thesis
    using assms
    by (simp add: sample_and_score_def sizes_Cons j subset_scores_reject
             del: subset_scores.simps)
qed

text \<open>
  Claim C1. For every embedding count \<open>n\<close>, every \<open>k \<ge> 1\<close> and every \<open>hat_n\<close>, line 108
  generates exactly \<open>k\<close> sizes, the \<open>i\<close>-th of them (\<open>i = 1..k\<close>) being
  \<open>floor((i - 1) * (n - hat_n) / k) + hat_n\<close>, and a call of \<open>sample_and_score\<close> that returns
  returns this list with one score for each size. For \<open>n = 1022\<close>, \<open>k = 8\<close>, \<open>hat_n = 40\<close> the
  first size is 40 and the last is 899.
\<close>

theorem sample_sizes_formula:
  assumes "1 \<le> k"
  shows "length (sizes n k hat_n) = nat k
       \<and> (\<forall>i. 1 \<le> i \<and> i \<le> k \<longrightarrow>
             sizes n k hat_n ! nat (i - 1) = (i - 1) * (n - hat_n) div k + hat_n)
       \<and> (\<forall>szs scores g'. sample_and_score perm emb n k hat_n J g = (Inr (szs, scores), g') \<longrightarrow>
             szs = sizes n k hat_n \<and> length scores = nat k)
       \<and> hd (sizes 1022 8 40) = 40 \<and> last (sizes 1022 8 40) = 899"
proof -
  have "szs = sizes n k hat_n \<and> length scores = nat k"
    if "sample_and_score perm emb n k hat_n J g = (Inr (szs, scores), g')" for szs scores g'
    using sample_and_score_sizes[OF that] by (simp add: length_sizes)
  then show ?thesis
    by (simp add: length_sizes nth_sizes sizes_1022_8_40)
qed

text \<open>
  The theorem at \<open>n = 1022\<close>, \<open>k = 8\<close>, \<open>hat_n = 40\<close>, and at a run on three points of the
  line with \<open>k = 2\<close>, \<open>hat_n = 2\<close>, \<open>J = 1\<close> that returns.
\<close>

theorem sample_sizes_formula_witness:
  "(1::int) \<le> 8 \<and> length (sizes 1022 8 40) = 8
   \<and> sizes 1022 8 40 ! 7 = 7 * (1022 - 40) div 8 + 40
   \<and> (1::int) \<le> 2
   \<and> sample_and_score rotating [[0], [1], [3]] 3 2 2 1 0 = (Inr ([2, 2], [Fin 1, Fin 2]), 2)
   \<and> [2, 2] = sizes 3 2 2"
proof -
  have run: "sample_and_score rotating [[0], [1], [3]] 3 2 2 1 0
               = (Inr ([2, 2], [Fin 1, Fin 2]), 2)"
    by (simp add: run_defs score_defs sizes_def upto_rec1 upt_rec)
  have "\<forall>i. 1 \<le> i \<and> i \<le> 8 \<longrightarrow>
          sizes 1022 8 40 ! nat (i - 1) = (i - 1) * (1022 - 40) div 8 + 40"
    using sample_sizes_formula[where k = 8 and n = 1022 and hat_n = 40 and perm = rotating
        and emb = "[]" and J = 0 and g = 0] by simp
  then have "sizes 1022 8 40 ! nat (8 - 1) = (8 - 1) * (1022 - 40) div 8 + 40"
    by (rule allE[where x = 8]) simp
  moreover have "[2, 2] = sizes 3 2 2"
    using sample_sizes_formula[where k = 2 and n = 3 and hat_n = 2 and perm = rotating
        and emb = "[[0], [1], [3]]" and J = 1 and g = 0] run by simp
  moreover have "length (sizes 1022 8 40) = 8"
    using sample_sizes_formula[where k = 8 and n = 1022 and hat_n = 40 and perm = rotating
        and emb = "[]" and J = 0 and g = 0] by simp
  ultimately show ?thesis
    using run by simp
qed

text \<open>
  Claim C3, as stated: for every \<open>n \<ge> hat_n \<ge> 2\<close> and \<open>k \<ge> 1\<close> the sizes are strictly
  increasing. They are not at \<open>n = 2\<close>, \<open>hat_n = 2\<close>, \<open>k = 2\<close>, where both sizes are 2.
\<close>

theorem sizes_strictly_increasing_counterexample:
  "(2::int) \<le> 2 \<and> (1::int) \<le> 2 \<and> sizes 2 2 2 = [2, 2] \<and> \<not> sorted_wrt (<) (sizes 2 2 2)"
  by (simp add: sizes_def upto_rec1)

text \<open>
  Claim C3, amended. For every \<open>n \<ge> hat_n \<ge> 2\<close> and every \<open>k \<ge> 1\<close> the list of sizes is
  non-decreasing, and strictly increasing when \<open>n - hat_n \<ge> k\<close>; every size is bounded by
  \<open>n\<close>; the first size is \<open>hat_n\<close>.
\<close>

theorem sizes_increasing_bounded:
  assumes "2 \<le> hat_n" "hat_n \<le> n" "1 \<le> k"
  shows "sorted (sizes n k hat_n)
       \<and> (k \<le> n - hat_n \<longrightarrow> sorted_wrt (<) (sizes n k hat_n))
       \<and> (\<forall>s \<in> set (sizes n k hat_n). s \<le> n)
       \<and> hd (sizes n k hat_n) = hat_n"
proof -
  have "sorted (sizes n k hat_n)"
    using assms by (simp add: sorted_sizes)
  moreover have "k \<le> n - hat_n \<longrightarrow> sorted_wrt (<) (sizes n k hat_n)"
    using assms by (simp add: strictly_sorted_sizes)
  moreover have "\<forall>s \<in> set (sizes n k hat_n). s \<le> n"
    using assms set_sizes_bounds by blast
  moreover have "hd (sizes n k hat_n) = hat_n"
    using assms by (simp add: sizes_Cons)
  ultimately show ?thesis by blast
qed

theorem sizes_increasing_bounded_witness:
  "(2::int) \<le> 40 \<and> (40::int) \<le> 1022 \<and> (1::int) \<le> 8 \<and> (8::int) \<le> 1022 - 40
   \<and> sorted_wrt (<) (sizes 1022 8 40)
   \<and> list_all (\<lambda>s. s \<le> 1022) (sizes 1022 8 40)
   \<and> hd (sizes 1022 8 40) = 40"
  using sizes_increasing_bounded[of 40 1022 8] by (simp add: list_all_iff)

text \<open>
  Claim C10. For every \<open>n\<close>, every \<open>k \<ge> 1\<close> and every \<open>hat_n\<close> with \<open>0 \<le> hat_n \<le> n\<close>, each
  size lies between \<open>hat_n\<close> and \<open>n\<close>, the sizes are non-decreasing, and every draw of
  \<open>size\<close> indices out of \<open>n\<close> passes the argument checks of \<open>np.random.choice\<close>: it returns
  the first \<open>size\<close> entries of the permutation and never the error.
\<close>

theorem sizes_within_population:
  assumes "1 \<le> k" "0 \<le> hat_n" "hat_n \<le> n"
  shows "(\<forall>s \<in> set (sizes n k hat_n). hat_n \<le> s \<and> s \<le> n)
       \<and> sorted (sizes n k hat_n)
       \<and> (\<forall>s \<in> set (sizes n k hat_n).
             np_random_choice perm n s g
               = (Inr (take (nat s) (fst (perm g (nat n)))), snd (perm g (nat n))))"
proof -
  have bounds: "\<forall>s \<in> set (sizes n k hat_n). hat_n \<le> s \<and> s \<le> n"
    using assms set_sizes_bounds by blast
  have "np_random_choice perm n s g
          = (Inr (take (nat s) (fst (perm g (nat n)))), snd (perm g (nat n)))"
    if "s \<in> set (sizes n k hat_n)" for s
  proof -
    have "0 \<le> s" "s \<le> n"
      using bounds that assms by auto
    then show ?thesis
      by (auto simp: np_random_choice_def split: prod.splits)
  qed
  then show ?thesis
    using bounds assms by (simp add: sorted_sizes)
qed

text \<open>
  The theorem at \<open>n = 3\<close>, \<open>k = 4\<close>, \<open>hat_n = 2\<close>, where \<open>n - hat_n < k\<close> and the four sizes are
  all 2.
\<close>

theorem sizes_within_population_witness:
  "(1::int) \<le> 4 \<and> (0::int) \<le> 2 \<and> (2::int) \<le> 3
   \<and> sizes 3 4 2 = [2, 2, 2, 2]
   \<and> list_all (\<lambda>s. 2 \<le> s \<and> s \<le> 3) (sizes 3 4 2)
   \<and> sorted (sizes 3 4 2)
   \<and> list_all (\<lambda>s. np_random_choice rotating 3 s 0 = (Inr [0, 1], 1)) (sizes 3 4 2)"
proof -
  have szs: "sizes 3 4 2 = [2, 2, 2, 2]"
    by (simp add: sizes_def upto_rec1)
  have rot: "rotating 0 3 = ([0, 1, 2], 1)"
    by (simp add: rotating_def upt_rec)
  show ?thesis
    using sizes_within_population[of 4 2 3 rotating 0] by (simp add: szs rot)
qed

text \<open>
  Claim C4, as stated: a call with \<open>k < 1\<close>, \<open>J < 1\<close> or \<open>hat_n < 2\<close> raises at entry. On three
  points of the line, \<open>k = 0\<close> returns two empty lists, \<open>J = 0\<close> returns a \<open>nan\<close> median without
  drawing, and \<open>hat_n = 1\<close> returns the score 0 of a single point.
\<close>

theorem sample_and_score_entry_check_counterexample:
  "sample_and_score rotating [[0], [1], [3]] 3 0 2 1 0 = (Inr ([], []), 0)
   \<and> sample_and_score rotating [[0], [1], [3]] 3 1 2 0 0 = (Inr ([2], [NaN]), 0)
   \<and> sample_and_score rotating [[0], [1], [3]] 3 1 1 1 0 = (Inr ([1], [Fin 0]), 1)"
  by (simp add: run_defs score_defs sizes_def upto_rec1 upt_rec)

text \<open>
  Claim C4, amended. \<open>sample_and_score\<close> validates nothing at entry. When \<open>hat_n > n\<close> with
  \<open>k \<ge> 1\<close> and \<open>J \<ge> 1\<close>, the first draw asks \<open>np.random.choice\<close> for \<open>hat_n\<close> of \<open>n\<close> indices
  and that call raises \<open>ValueError\<close> before any index is drawn or any score computed: the
  generator is left as it was. With \<open>k < 1\<close> the call returns two empty lists, and with
  \<open>J < 1\<close> it returns the sizes with \<open>nan\<close> medians, both without drawing.
\<close>

theorem sample_and_score_no_entry_validation:
  "(n < hat_n \<and> 1 \<le> k \<and> 1 \<le> J \<longrightarrow>
      sample_and_score perm emb n k hat_n J g = (Inl ValueError, g))
   \<and> (k < 1 \<longrightarrow> sample_and_score perm emb n k hat_n J g = (Inr ([], []), g))
   \<and> (J < 1 \<longrightarrow>
        sample_and_score perm emb n k hat_n J g
          = (Inr (sizes n k hat_n, map (\<lambda>_. NaN) (sizes n k hat_n)), g))"
proof (intro conjI impI)
  assume "n < hat_n \<and> 1 \<le> k \<and> 1 \<le> J"
  then show "sample_and_score perm emb n k hat_n J g = (Inl ValueError, g)"
    by (simp add: first_draw_rejected)
next
  assume "k < 1"
  then show "sample_and_score perm emb n k hat_n J g = (Inr ([], []), g)"
    by (simp add: sample_and_score_def sizes_def)
next
  assume "J < 1"
  then show "sample_and_score perm emb n k hat_n J g
               = (Inr (sizes n k hat_n, map (\<lambda>_. NaN) (sizes n k hat_n)), g)"
    by (simp add: sample_and_score_def score_sizes_no_draws)
qed

text \<open>The theorem at \<open>hat_n = 40\<close>, \<open>n = 20\<close> with the defaults \<open>k = 8\<close>, \<open>J = 7\<close>.\<close>

theorem sample_and_score_no_entry_validation_witness:
  "(20::int) < 40 \<and> (1::int) \<le> 8 \<and> (1::int) \<le> 7
   \<and> sample_and_score rotating (replicate 20 [0]) 20 8 40 7 0 = (Inl ValueError, 0)
   \<and> (0::int) < 1
   \<and> sample_and_score rotating (replicate 20 [0]) 20 0 40 7 0 = (Inr ([], []), 0)
   \<and> sample_and_score rotating (replicate 20 [0]) 20 2 10 0 0
         = (Inr ([10, 15], [NaN, NaN]), 0)"
proof -
  have "sample_and_score rotating (replicate 20 [0]) 20 8 40 7 0 = (Inl ValueError, 0)"
    using sample_and_score_no_entry_validation[of 20 40 8 7 rotating "replicate 20 [0]" 0]
    by simp
  moreover have "sample_and_score rotating (replicate 20 [0]) 20 0 40 7 0 = (Inr ([], []), 0)"
    using sample_and_score_no_entry_validation[of 20 40 0 7 rotating "replicate 20 [0]" 0]
    by simp
  moreover have "sample_and_score rotating (replicate 20 [0]) 20 2 10 0 0
                   = (Inr ([10, 15], [NaN, NaN]), 0)"
    using sample_and_score_no_entry_validation[of 20 10 2 0 rotating "replicate 20 [0]" 0]
    by (simp add: sizes_def upto_rec1)
  ultimately show ?thesis by simp
qed

section \<open>Properties of the scorer\<close>

text \<open>
  Claim C9, as stated: on a matrix with no rows \<open>compute_persistent_score\<close> raises an
  error. It returns a value.
\<close>

theorem empty_point_set_counterexample: "\<not> isl (compute_persistent_score [])"
  by (simp add: score_defs)

text \<open>
  Claim C9, amended. On a matrix with no rows \<open>compute_persistent_score\<close> raises nothing:
  the distance matrix and the tree are empty and the score returned is 0.
\<close>

theorem empty_point_set_scores_zero: "compute_persistent_score [] = Inr 0"
  by (simp add: score_defs)

section \<open>Properties of the dimension estimator\<close>






text \<open>
  Claim C6. For every input to \<open>estimate_dimension\<close> in which a score is zero or negative,
  the call ends in an error: the logarithm of that score is \<open>-inf\<close> or \<open>nan\<close>, and the
  regression's input validation raises \<open>ValueError\<close> on it, whatever the sizes are.
\<close>

theorem nonpositive_score_raises:
  assumes "s \<in> set scores" and "s = NInf \<or> (\<exists>x. x \<le> 0 \<and> s = Fin x)"
  shows "estimate_dimension szs scores = Inl ValueError"
proof -
  have "\<not> isfinite (np_log s)"
    using assms(2) by (auto split: if_splits)
  then have "\<not> list_all isfinite (map np_log scores)"
    using assms(1) unfolding list_all_iff by (metis imageI set_map)
  then show ?thesis
    by (simp add: estimate_dimension_def linear_regression_coef_def Let_def)
qed

theorem nonpositive_score_raises_witness:
  "Fin 0 \<in> set [Fin 5, Fin 0] \<and> (0::real) \<le> 0
   \<and> estimate_dimension [Fin 40, Fin 162] [Fin 5, Fin 0] = Inl ValueError"
  using nonpositive_score_raises[of "Fin 0" "[Fin 5, Fin 0]" "[Fin 40, Fin 162]"] by simp




section \<open>Properties of the aggregator\<close>






section \<open>Permutation invariance of the scorer\<close>

lemma weight_relabel [simp]: "weight (relabel f e) = weight e"
  by (simp add: weight_def relabel_def)

lemma relabel_simp [simp]: "relabel f (a, b, w) = (f a, f b, w)"
  by (simp add: relabel_def)

lemma weight_simp [simp]: "weight (a, b, w) = w"
  by (simp add: weight_def)

subsection \<open>Renaming the vertices\<close>




subsection \<open>Two neighbouring edges of equal weight\<close>






subsection \<open>The order among equal weights\<close>




subsection \<open>From row numbers to points\<close>






subsection \<open>The score in terms of the points\<close>








end
